theory Spec2Isabelle
  imports Main
begin

section \<open>JavaScript values used by the sources\<close>

text \<open>
  Chip amounts, seat indices and streets are JavaScript numbers in the sources; they are
  modelled as unbounded integers (\<^typ>\<open>int\<close>), the values the game data holds.
  The operators the sources apply to them are written out below.
\<close>

definition num_or :: "int \<Rightarrow> int \<Rightarrow> int" where
  \<comment> \<open>\<^verbatim>\<open>v || d\<close> on a number: zero is falsy.\<close>
  "num_or v d = (if v = 0 then d else v)"

definition opt_num_or :: "int option \<Rightarrow> int \<Rightarrow> int" where
  \<comment> \<open>\<^verbatim>\<open>v || d\<close> on a number that may be \<^verbatim>\<open>undefined\<close>.\<close>
  "opt_num_or v d = (case v of None \<Rightarrow> d | Some x \<Rightarrow> num_or x d)"

definition js_index :: "'a list \<Rightarrow> int \<Rightarrow> 'a option" where
  \<comment> \<open>\<^verbatim>\<open>xs[i]\<close> read: \<^verbatim>\<open>undefined\<close> (\<open>None\<close>) outside the array.\<close>
  "js_index xs i = (if 0 \<le> i \<and> i < int (length xs) then Some (xs ! nat i) else None)"

definition truthy :: "string option \<Rightarrow> bool" where
  \<comment> \<open>Truthiness of an optional string: \<^verbatim>\<open>null\<close>, \<^verbatim>\<open>undefined\<close> and the empty string are falsy.\<close>
  "truthy v = (case v of None \<Rightarrow> False | Some x \<Rightarrow> x \<noteq> [])"

fun indexOf :: "'a list \<Rightarrow> 'a \<Rightarrow> int" where
  \<comment> \<open>\<^verbatim>\<open>Array.prototype.indexOf\<close>: the first position of the element, or \<open>-1\<close>.\<close>
  "indexOf [] x = - 1"
| "indexOf (y # ys) x =
     (if y = x then 0 else (let r = indexOf ys x in if r = - 1 then - 1 else r + 1))"

section \<open>Game settings and action sequences\<close>

text \<open>
  \<^verbatim>\<open>SettingsData\<close> (contexts/DataContext.tsx): the blinds \<^verbatim>\<open>{bb, sb, ante}\<close>, the starting
  stack per seat and the player count. The other fields of the interface (\<^verbatim>\<open>prizes\<close>,
  \<^verbatim>\<open>skipSb\<close>, \<^verbatim>\<open>movingBu\<close>, \<^verbatim>\<open>eqModelId\<close>, \<^verbatim>\<open>anteType\<close>, \<^verbatim>\<open>straddleType\<close>) are read by none
  of the functions below.
\<close>

record Blinds =
  sb :: int
  bb :: int
  ante :: int

record SettingsData =
  stacks :: "int list"
  blinds :: Blinds
  playerCount :: nat

text \<open>One entry of an action sequence: \<^verbatim>\<open>{player, type, amount, street}\<close>.\<close>

record SeqAction =
  player :: int
  type :: string
  amount :: int
  street :: int

section \<open>poker-utils.ts\<close>

definition getPositionNames :: "nat \<Rightarrow> string list" where
  "getPositionNames pc =
     (if pc = 2 then [''SB'', ''BB'']
      else if pc = 3 then [''BU'', ''SB'', ''BB'']
      else if pc = 4 then [''CO'', ''BU'', ''SB'', ''BB'']
      else if pc = 5 then [''HJ'', ''CO'', ''BU'', ''SB'', ''BB'']
      else if pc = 6 then [''MP'', ''HJ'', ''CO'', ''BU'', ''SB'', ''BB'']
      else if pc = 7 then [''UTG'', ''MP'', ''HJ'', ''CO'', ''BU'', ''SB'', ''BB'']
      else if pc = 8 then [''UTG'', ''UTG+1'', ''MP'', ''HJ'', ''CO'', ''BU'', ''SB'', ''BB'']
      else if pc = 9 then
        [''UTG'', ''UTG+1'', ''UTG+2'', ''MP'', ''HJ'', ''CO'', ''BU'', ''SB'', ''BB'']
      else [''SB'', ''BB''])"

definition initialStack :: "SettingsData \<Rightarrow> int \<Rightarrow> int" where
  \<comment> \<open>\<^verbatim>\<open>initialStacks[playerIndex] || 4000000\<close>: a missing entry and a zero entry both
      give the default.\<close>
  "initialStack settings playerIndex = opt_num_or (js_index (stacks settings) playerIndex) 4000000"

definition movesChips :: "int \<Rightarrow> SeqAction \<Rightarrow> bool" where
  \<comment> \<open>The test of the \<^verbatim>\<open>forEach\<close> body: the player's own call, raise or all-in.\<close>
  "movesChips playerIndex action =
     (player action = playerIndex \<and>
      (type action = ''C'' \<or> type action = ''R'' \<or> type action = ''A''))"

definition subtractAction :: "int \<Rightarrow> int \<Rightarrow> SeqAction \<Rightarrow> int" where
  \<comment> \<open>One iteration of the \<^verbatim>\<open>forEach\<close> over the sequence, on \<^verbatim>\<open>currentStack\<close>.\<close>
  "subtractAction playerIndex currentStack action =
     (if movesChips playerIndex action
      then currentStack - num_or (amount action) 0
      else currentStack)"

definition calculatePlayerStackAbsolute :: "int \<Rightarrow> SettingsData \<Rightarrow> SeqAction list \<Rightarrow> int" where
  "calculatePlayerStackAbsolute playerIndex settings actionSequence =
     (let currentStack0 = initialStack settings playerIndex;
          sbv = num_or (sb (blinds settings)) 0;
          bbv = num_or (bb (blinds settings)) 0;
          antev = num_or (ante (blinds settings)) 0;
          positions = getPositionNames
            (if playerCount settings = 0 then 2 else playerCount settings);
          playerPosition = js_index positions playerIndex;
          currentStack1 = (if playerPosition = Some ''SB'' then currentStack0 - sbv else currentStack0);
          currentStack2 = (if playerPosition = Some ''BB'' then currentStack1 - bbv else currentStack1);
          currentStack3 = (if antev > 0 then currentStack2 - antev else currentStack2);
          currentStack4 = foldl (subtractAction playerIndex) currentStack3 actionSequence
      in max 0 currentStack4)"

definition isActionAllIn :: "int \<Rightarrow> int \<Rightarrow> SettingsData \<Rightarrow> SeqAction list \<Rightarrow> bool" where
  "isActionAllIn actionAmount playerIndex settings actionSequence =
     (let playerStackBefore = calculatePlayerStackAbsolute playerIndex settings actionSequence
      in actionAmount \<ge> playerStackBefore)"

definition headsUp :: SettingsData where
  \<comment> \<open>The settings of the spec's examples: two seats with 200 chips, blinds 1/2, no ante.\<close>
  "headsUp = \<lparr>stacks = [200, 200], blinds = \<lparr>sb = 1, bb = 2, ante = 0\<rparr>, playerCount = 2\<rparr>"

section \<open>The pot and contribution computation of the table preview\<close>

text \<open>
  The two contribution arrays are JavaScript arrays of numbers that the function updates in
  place. A cell is a number, \<^verbatim>\<open>NaN\<close> (what \<^verbatim>\<open>undefined + x\<close> gives) or a hole left by a write
  past the end of the array.
\<close>

datatype jsnum = Num int | NaN | Undefined

definition js_read :: "jsnum list \<Rightarrow> int \<Rightarrow> jsnum" where
  "js_read xs i = (if 0 \<le> i \<and> i < int (length xs) then xs ! nat i else Undefined)"

definition js_write :: "jsnum list \<Rightarrow> int \<Rightarrow> jsnum \<Rightarrow> jsnum list" where
  \<comment> \<open>\<^verbatim>\<open>xs[i] = v\<close>: a write past the end extends the array, leaving holes; a negative
      index names a property and leaves the elements as they are.\<close>
  "js_write xs i v =
     (if i < 0 then xs
      else if nat i < length xs then xs[nat i := v]
      else xs @ replicate (nat i - length xs) Undefined @ [v])"

definition js_plus :: "jsnum \<Rightarrow> int \<Rightarrow> jsnum" where
  "js_plus c x = (case c of Num v \<Rightarrow> Num (v + x) | NaN \<Rightarrow> NaN | Undefined \<Rightarrow> NaN)"

definition js_add_at :: "jsnum list \<Rightarrow> int \<Rightarrow> int \<Rightarrow> jsnum list" where
  \<comment> \<open>\<^verbatim>\<open>xs[i] += x\<close>\<close>
  "js_add_at xs i x = js_write xs i (js_plus (js_read xs i) x)"

record PotState =
  totalPot :: int
  playerCurrentStreetContributions :: "jsnum list"
  playerTotalContributions :: "jsnum list"

definition potAction :: "int \<Rightarrow> PotState \<Rightarrow> SeqAction \<Rightarrow> PotState" where
  \<comment> \<open>One iteration of the \<^verbatim>\<open>forEach\<close> over \<^verbatim>\<open>currentNode.sequence\<close>; the first argument
      is \<^verbatim>\<open>compactCurrentNode.s\<close>.\<close>
  "potAction currentStreet st action =
     (let actionAmount = num_or (amount action) 0;
          actionPlayer = player action;
          actionStreet = street action
      in if type action \<noteq> ''F'' \<and> type action \<noteq> ''X'' \<and> actionAmount > 0 then
           (let st1 = st\<lparr>totalPot := totalPot st + actionAmount\<rparr>
            in if actionPlayer < int (length (playerTotalContributions st1)) then
                 (let st2 = st1\<lparr>playerTotalContributions :=
                              js_add_at (playerTotalContributions st1) actionPlayer actionAmount\<rparr>
                  in if actionStreet = currentStreet then
                       (if type action = ''C'' then
                          st2\<lparr>playerCurrentStreetContributions :=
                            js_add_at (playerCurrentStreetContributions st2) actionPlayer actionAmount\<rparr>
                        else if type action = ''R'' then
                          st2\<lparr>playerCurrentStreetContributions :=
                            js_write (playerCurrentStreetContributions st2) actionPlayer (Num actionAmount)\<rparr>
                        else st2)
                     else st2)
               else st1)
         else st)"

definition seedBlind :: "int \<Rightarrow> int \<Rightarrow> int \<Rightarrow> PotState \<Rightarrow> PotState" where
  \<comment> \<open>\<^verbatim>\<open>if (index !== -1) { total[index] += blind; if (street === 0) current[index] = blind }\<close>\<close>
  "seedBlind currentStreet index blind st =
     (if index \<noteq> - 1 then
        (let st1 = st\<lparr>playerTotalContributions :=
                     js_add_at (playerTotalContributions st) index blind\<rparr>
         in if currentStreet = 0 then
              st1\<lparr>playerCurrentStreetContributions :=
                js_write (playerCurrentStreetContributions st1) index (Num blind)\<rparr>
            else st1)
      else st)"

definition calculatePotAndContributions :: "SettingsData \<Rightarrow> int \<Rightarrow> SeqAction list \<Rightarrow> PotState" where
  \<comment> \<open>The closure reads \<^verbatim>\<open>settings\<close>, \<^verbatim>\<open>compactCurrentNode.s\<close> and \<^verbatim>\<open>currentNode.sequence\<close>;
      they are the three arguments here.\<close>
  "calculatePotAndContributions settings currentStreet actionSequence =
     (let st0 = \<lparr>totalPot = 0,
                 playerCurrentStreetContributions = replicate (playerCount settings) (Num 0),
                 playerTotalContributions = replicate (playerCount settings) (Num 0)\<rparr>;
          positions = getPositionNames (playerCount settings);
          antev = num_or (ante (blinds settings)) 0;
          st1 = (if antev > 0
                 then st0\<lparr>totalPot := totalPot st0 + antev * int (playerCount settings)\<rparr>
                 else st0);
          sbIndex = indexOf positions ''SB'';
          bbIndex = indexOf positions ''BB'';
          sbv = num_or (sb (blinds settings)) 0;
          bbv = num_or (bb (blinds settings)) 0;
          st2 = st1\<lparr>totalPot := totalPot st1 + (sbv + bbv)\<rparr>;
          st3 = seedBlind currentStreet sbIndex sbv st2;
          st4 = seedBlind currentStreet bbIndex bbv st3
      in foldl (potAction currentStreet) st4 actionSequence)"

definition replaceVsAdd :: "SeqAction list" where
  \<comment> \<open>The sequence of the spec's replace-versus-add example.\<close>
  "replaceVsAdd =
     [\<lparr>player = 0, type = ''R'', amount = 6, street = 0\<rparr>,
      \<lparr>player = 1, type = ''C'', amount = 6, street = 0\<rparr>,
      \<lparr>player = 0, type = ''R'', amount = 20, street = 0\<rparr>]"

section \<open>The compact tree (types/optimized-tree.ts)\<close>

text \<open>
  The fields of \<^verbatim>\<open>CompactAction\<close> (\<^verbatim>\<open>t\<close>, \<^verbatim>\<open>amt\<close>, \<^verbatim>\<open>n\<close>) and of \<^verbatim>\<open>CompactTreeNode\<close>
  (\<^verbatim>\<open>id\<close>, \<^verbatim>\<open>p\<close>, \<^verbatim>\<open>pl\<close>, \<^verbatim>\<open>s\<close>, \<^verbatim>\<open>a\<close>, \<^verbatim>\<open>d\<close>, \<^verbatim>\<open>f\<close>) carry the prefixes \<open>act_\<close> and
  \<open>node_\<close>; optional fields are options.
\<close>

record CompactAction =
  act_t :: string
  act_amt :: "int option"
  act_n :: "string option"

record CompactTreeNode =
  node_id :: string
  node_p :: "string option"
  node_pl :: int
  node_s :: int
  node_a :: "CompactAction list"
  node_d :: int
  node_f :: int

text \<open>
  \<^verbatim>\<open>OptimizedTree\<close>: \<open>nodes\<close> is the object's entry list, in the order \<^verbatim>\<open>Object.entries\<close>
  enumerates it. The metadata is read by none of the operations below.
\<close>

record OptimizedTree =
  nodes :: "(string \<times> CompactTreeNode) list"
  root :: string

record BreadcrumbItem =
  crumb_nodeId :: string
  crumb_label :: string
  crumb_player :: int
  crumb_action :: string

record NavigationAction =
  nav_label :: string
  nav_targetNode :: string
  nav_type :: string
  nav_amount :: int

section \<open>compact-tree-navigator.ts\<close>

text \<open>
  \<^verbatim>\<open>Number.prototype.toFixed\<close> and \<^verbatim>\<open>Number.prototype.toString\<close> belong to the JavaScript
  runtime and work on IEEE doubles; the label functions take them as a parameter:
  \<open>toFixedDiv a b d\<close> stands for \<^verbatim>\<open>(a / b).toFixed(d)\<close> and \<open>toString a\<close> for \<^verbatim>\<open>a.toString()\<close>.
\<close>

record NumberPrinter =
  toFixedDiv :: "int \<Rightarrow> int \<Rightarrow> nat \<Rightarrow> string"
  toString :: "int \<Rightarrow> string"

definition formatAmount :: "NumberPrinter \<Rightarrow> int \<Rightarrow> string" where
  "formatAmount pr amt =
     (if amt \<ge> 1000000 then toFixedDiv pr amt 1000000 1 @ ''M''
      else if amt \<ge> 1000 then toFixedDiv pr amt 1000 0 @ ''K''
      else toString pr amt)"

definition formatActionLabel :: "NumberPrinter \<Rightarrow> string \<Rightarrow> int \<Rightarrow> string" where
  "formatActionLabel pr ty amt =
     (if ty = ''F'' then ''Fold''
      else if ty = ''C'' then ''Call''
      else if ty = ''X'' then ''Check''
      else if ty = ''R'' then (if amt > 0 then ''Raise '' @ formatAmount pr amt else ''Raise'')
      else ty)"

text \<open>
  The navigator object: the node index and the two caches. \<^verbatim>\<open>getNodePath\<close> and the
  statistics are not modelled; nothing below reads the path cache.
\<close>

record Navigator =
  nodeCache :: "string \<rightharpoonup> CompactTreeNode"
  pathCache :: "string \<rightharpoonup> string"
  breadcrumbCache :: "string \<rightharpoonup> BreadcrumbItem list"

definition buildCache :: "(string \<times> CompactTreeNode) list \<Rightarrow> (string \<rightharpoonup> CompactTreeNode)" where
  \<comment> \<open>\<^verbatim>\<open>Object.entries(tree.nodes).forEach(([id, node]) => nodeCache.set(id, node))\<close>\<close>
  "buildCache entries = foldl (\<lambda>m (k, node). m(k \<mapsto> node)) Map.empty entries"

definition newNavigator :: "OptimizedTree \<Rightarrow> Navigator" where
  "newNavigator tree =
     \<lparr>nodeCache = buildCache (nodes tree), pathCache = Map.empty, breadcrumbCache = Map.empty\<rparr>"

definition clearCaches :: "Navigator \<Rightarrow> Navigator" where
  "clearCaches nav = nav\<lparr>pathCache := Map.empty, breadcrumbCache := Map.empty\<rparr>"

definition getAvailableActions :: "NumberPrinter \<Rightarrow> Navigator \<Rightarrow> string \<Rightarrow> NavigationAction list" where
  "getAvailableActions pr nav nodeId =
     (case nodeCache nav nodeId of
        None \<Rightarrow> []
      | Some node \<Rightarrow>
          map (\<lambda>action.
                 \<lparr>nav_label = formatActionLabel pr (act_t action) (opt_num_or (act_amt action) 0),
                  nav_targetNode = the (act_n action),
                  nav_type = act_t action,
                  nav_amount = opt_num_or (act_amt action) 0\<rparr>)
              (filter (\<lambda>action. truthy (act_n action)) (node_a node)))"

fun navigateByPath :: "Navigator \<Rightarrow> string \<Rightarrow> string list \<Rightarrow> string option" where
  "navigateByPath nav currentNodeId [] = Some currentNodeId"
| "navigateByPath nav currentNodeId (actionType # rest) =
     (case nodeCache nav currentNodeId of
        None \<Rightarrow> None
      | Some node \<Rightarrow>
          (case find (\<lambda>a. act_t a = actionType \<and> truthy (act_n a)) (node_a node) of
             None \<Rightarrow> None
           | Some action \<Rightarrow>
               if \<not> truthy (act_n action) then None
               else navigateByPath nav (the (act_n action)) rest))"

text \<open>
  The replay of the round-trip property, after the spec's words: at the current node look
  up the available actions, follow the first one whose type is the requested type.
\<close>

fun replayByAvailableActions :: "NumberPrinter \<Rightarrow> Navigator \<Rightarrow> string \<Rightarrow> string list \<Rightarrow> string option" where
  "replayByAvailableActions pr nav currentNodeId [] = Some currentNodeId"
| "replayByAvailableActions pr nav currentNodeId (actionType # rest) =
     (case find (\<lambda>a. nav_type a = actionType) (getAvailableActions pr nav currentNodeId) of
        None \<Rightarrow> None
      | Some a \<Rightarrow> replayByAvailableActions pr nav (nav_targetNode a) rest)"

subsection \<open>Terminal nodes\<close>

text \<open>
  The module imports types only, and it declares an object \<^verbatim>\<open>CompactTreeUtils\<close> of its own
  (lines 231-320) with the members \<^verbatim>\<open>convertToCompact\<close>, \<^verbatim>\<open>calculateSizeReduction\<close> and
  \<^verbatim>\<open>validateCompactTree\<close>. This object is what the name \<^verbatim>\<open>CompactTreeUtils\<close> in \<^verbatim>\<open>traverse\<close>
  refers to, and it has no member \<^verbatim>\<open>isTerminal\<close>: the call \<^verbatim>\<open>CompactTreeUtils.isTerminal(node)\<close>
  calls \<^verbatim>\<open>undefined\<close> and throws a \<^verbatim>\<open>TypeError\<close>. The class \<^verbatim>\<open>CompactTreeUtils\<close> of
  types/optimized-tree.ts, which has a static \<^verbatim>\<open>isTerminal\<close>, is not imported here.
\<close>

datatype jsError = TypeError

definition CompactTreeUtils_isTerminal :: "(CompactTreeNode \<Rightarrow> bool) option" where
  \<comment> \<open>The member \<^verbatim>\<open>isTerminal\<close> of the module's object \<^verbatim>\<open>CompactTreeUtils\<close>: \<^verbatim>\<open>undefined\<close>.\<close>
  "CompactTreeUtils_isTerminal = None"

definition callMember :: "('a \<Rightarrow> 'b) option \<Rightarrow> 'a \<Rightarrow> jsError + 'b" where
  \<comment> \<open>A call of a member of an object: a call of \<^verbatim>\<open>undefined\<close> throws.\<close>
  "callMember member x = (case member of None \<Rightarrow> Inl TypeError | Some f \<Rightarrow> Inr (f x))"

text \<open>
  \<^verbatim>\<open>traverse\<close> is a recursive closure over the two mutable collections \<^verbatim>\<open>visited\<close> and
  \<^verbatim>\<open>terminals\<close>; here it passes them as a state, and an exception (\<open>Inl\<close>) ends the traversal.
  The first argument bounds the depth of the recursion: \<open>None\<close> means that the bound was
  reached.
\<close>

record TraverseState =
  visited :: "string set"
  terminals :: "string list"

fun forEachTarget ::
  "(string \<Rightarrow> TraverseState \<Rightarrow> (jsError + TraverseState) option) \<Rightarrow> CompactAction list \<Rightarrow>
   TraverseState \<Rightarrow> (jsError + TraverseState) option" where
  \<comment> \<open>\<^verbatim>\<open>node.a.forEach(action => { if (action.n) traverse(action.n) })\<close>\<close>
  "forEachTarget visit [] st = Some (Inr st)"
| "forEachTarget visit (action # rest) st =
     (if truthy (act_n action) then
        (case visit (the (act_n action)) st of
           None \<Rightarrow> None
         | Some (Inl e) \<Rightarrow> Some (Inl e)
         | Some (Inr st') \<Rightarrow> forEachTarget visit rest st')
      else forEachTarget visit rest st)"

primrec traverse ::
  "nat \<Rightarrow> (string \<rightharpoonup> CompactTreeNode) \<Rightarrow> string \<Rightarrow> TraverseState \<Rightarrow>
   (jsError + TraverseState) option" where
  "traverse 0 cache nodeId st = None"
| "traverse (Suc depth) cache nodeId st =
     (if nodeId \<in> visited st then Some (Inr st)
      else
        (let st1 = st\<lparr>visited := insert nodeId (visited st)\<rparr>
         in case cache nodeId of
              None \<Rightarrow> Some (Inr st1)
            | Some node \<Rightarrow>
                (case callMember CompactTreeUtils_isTerminal node of
                   Inl e \<Rightarrow> Some (Inl e)
                 | Inr terminal \<Rightarrow>
                     if terminal then Some (Inr (st1\<lparr>terminals := terminals st1 @ [nodeId]\<rparr>))
                     else forEachTarget (traverse depth cache) (node_a node) st1)))"

definition getTerminalNodes :: "nat \<Rightarrow> Navigator \<Rightarrow> string \<Rightarrow> (jsError + string list) option" where
  \<comment> \<open>The exception, or the list \<^verbatim>\<open>terminals\<close> after \<^verbatim>\<open>traverse(startNodeId)\<close>.\<close>
  "getTerminalNodes depth nav startNodeId =
     (case traverse depth (nodeCache nav) startNodeId \<lparr>visited = {}, terminals = []\<rparr> of
        None \<Rightarrow> None
      | Some (Inl e) \<Rightarrow> Some (Inl e)
      | Some (Inr st) \<Rightarrow> Some (Inr (terminals st)))"

subsection \<open>Breadcrumbs\<close>

definition crumbFor ::
  "NumberPrinter \<Rightarrow> CompactTreeNode \<Rightarrow> CompactTreeNode \<Rightarrow> BreadcrumbItem list \<Rightarrow> BreadcrumbItem list" where
  \<comment> \<open>The body of the \<^verbatim>\<open>while\<close> loop between the lookup of the parent and the move to it:
      the entry of the first action of the parent whose target is the current node's id.\<close>
  "crumbFor pr currentNode parentNode breadcrumbs =
     (case find (\<lambda>action. act_n action = Some (node_id currentNode)) (node_a parentNode) of
        None \<Rightarrow> breadcrumbs
      | Some actionToChild \<Rightarrow>
          \<lparr>crumb_nodeId = the (node_p currentNode),
           crumb_label =
             formatActionLabel pr (act_t actionToChild) (opt_num_or (act_amt actionToChild) 0),
           crumb_player = node_pl parentNode,
           crumb_action = act_t actionToChild\<rparr> # breadcrumbs)"

text \<open>
  The \<^verbatim>\<open>while (currentNode && currentNode.p)\<close> loop follows parent links and need not
  end when they form a cycle: \<open>None\<close> is the loop that does not return. The result is the
  pair of \<^verbatim>\<open>currentNode\<close> and \<^verbatim>\<open>breadcrumbs\<close> at the exit.
\<close>

partial_function (option) walkParents ::
  "NumberPrinter \<Rightarrow> (string \<rightharpoonup> CompactTreeNode) \<Rightarrow> CompactTreeNode option \<Rightarrow>
   BreadcrumbItem list \<Rightarrow> (CompactTreeNode option \<times> BreadcrumbItem list) option" where
  "walkParents pr cache currentNode breadcrumbs =
     (case currentNode of
        None \<Rightarrow> Some (currentNode, breadcrumbs)
      | Some cur \<Rightarrow>
          if \<not> truthy (node_p cur) then Some (currentNode, breadcrumbs)
          else
            (case cache (the (node_p cur)) of
               None \<Rightarrow> Some (currentNode, breadcrumbs)
             | Some parentNode \<Rightarrow>
                 walkParents pr cache (Some parentNode) (crumbFor pr cur parentNode breadcrumbs)))"

declare walkParents.simps [code]

definition addRoot :: "CompactTreeNode option \<Rightarrow> BreadcrumbItem list \<Rightarrow> BreadcrumbItem list" where
  \<comment> \<open>\<^verbatim>\<open>if (currentNode && !currentNode.p) breadcrumbs.unshift({..., label: 'Start', ...})\<close>\<close>
  "addRoot currentNode breadcrumbs =
     (case currentNode of
        None \<Rightarrow> breadcrumbs
      | Some cur \<Rightarrow>
          if \<not> truthy (node_p cur) then
            \<lparr>crumb_nodeId = node_id cur, crumb_label = ''Start'',
             crumb_player = node_pl cur, crumb_action = ''ROOT''\<rparr> # breadcrumbs
          else breadcrumbs)"

definition computeBreadcrumbs ::
  "NumberPrinter \<Rightarrow> (string \<rightharpoonup> CompactTreeNode) \<Rightarrow> string \<Rightarrow> BreadcrumbItem list option" where
  \<comment> \<open>\<^verbatim>\<open>getBreadcrumbs\<close> below its cache lookup and above its cache update.\<close>
  "computeBreadcrumbs pr cache nodeId =
     (case walkParents pr cache (cache nodeId) [] of
        None \<Rightarrow> None
      | Some (currentNode, breadcrumbs) \<Rightarrow> Some (addRoot currentNode breadcrumbs))"

definition getBreadcrumbs ::
  "NumberPrinter \<Rightarrow> Navigator \<Rightarrow> string \<Rightarrow> (BreadcrumbItem list \<times> Navigator) option" where
  \<comment> \<open>The result and the navigator with its cache updated.\<close>
  "getBreadcrumbs pr nav nodeId =
     (case breadcrumbCache nav nodeId of
        Some cached \<Rightarrow> Some (cached, nav)
      | None \<Rightarrow>
          (case computeBreadcrumbs pr (nodeCache nav) nodeId of
             None \<Rightarrow> None
           | Some breadcrumbs \<Rightarrow>
               Some (breadcrumbs,
                     nav\<lparr>breadcrumbCache := (breadcrumbCache nav)(nodeId \<mapsto> breadcrumbs)\<rparr>)))"

text \<open>
  The navigators a caller can hold: the one the constructor returns, and what
  \<^verbatim>\<open>getBreadcrumbs\<close> and \<^verbatim>\<open>clearCaches\<close> make of one.
\<close>

inductive reachable :: "NumberPrinter \<Rightarrow> OptimizedTree \<Rightarrow> Navigator \<Rightarrow> bool"
  for pr :: NumberPrinter and tree :: OptimizedTree where
  constructed: "reachable pr tree (newNavigator tree)"
| queried: "reachable pr tree nav \<Longrightarrow> getBreadcrumbs pr nav nodeId = Some (crumbs, nav') \<Longrightarrow>
     reachable pr tree nav'"
| cleared: "reachable pr tree nav \<Longrightarrow> reachable pr tree (clearCaches nav)"

subsection \<open>Validation\<close>

fun decimal :: "nat \<Rightarrow> string" where
  \<comment> \<open>An array index in a template string.\<close>
  "decimal k = (if k < 10 then [char_of (48 + k)] else decimal (k div 10) @ [char_of (48 + k mod 10)])"

declare decimal.simps [simp del]

record ValidationResult =
  isValid :: bool
  errors :: "string list"

definition rootError :: "string \<Rightarrow> string" where
  "rootError r = ''Root node '' @ r @ '' not found''"

definition parentError :: "string \<Rightarrow> string \<Rightarrow> string" where
  "parentError nodeId parent = ''Node '' @ nodeId @ '' references non-existent parent '' @ parent"

definition actionError :: "string \<Rightarrow> nat \<Rightarrow> string \<Rightarrow> string" where
  "actionError nodeId index target =
     ''Node '' @ nodeId @ '' action '' @ decimal index @ '' references non-existent node '' @ target"

definition checkAction :: "string set \<Rightarrow> string \<Rightarrow> string list \<Rightarrow> nat \<times> CompactAction \<Rightarrow> string list" where
  \<comment> \<open>One iteration of \<^verbatim>\<open>node.a.forEach((action, index) => ...)\<close> on the error list.\<close>
  "checkAction nodeIds nodeId errs ia =
     (case ia of (index, action) \<Rightarrow>
        if truthy (act_n action) \<and> the (act_n action) \<notin> nodeIds
        then errs @ [actionError nodeId index (the (act_n action))]
        else errs)"

definition checkNode :: "string set \<Rightarrow> string list \<Rightarrow> string \<times> CompactTreeNode \<Rightarrow> string list" where
  \<comment> \<open>One iteration of \<^verbatim>\<open>Object.entries(tree.nodes).forEach(([nodeId, node]) => ...)\<close>.\<close>
  "checkNode nodeIds errs entry =
     (case entry of (nodeId, node) \<Rightarrow>
        (let errs1 = (if truthy (node_p node) \<and> the (node_p node) \<notin> nodeIds
                      then errs @ [parentError nodeId (the (node_p node))]
                      else errs)
         in foldl (checkAction nodeIds nodeId) errs1 (enumerate 0 (node_a node))))"

definition validateCompactTree :: "OptimizedTree \<Rightarrow> ValidationResult" where
  "validateCompactTree tree =
     (let nodeIds = set (map fst (nodes tree));
          errs0 = (if root tree \<notin> nodeIds then [rootError (root tree)] else []);
          errs = foldl (checkNode nodeIds) errs0 (nodes tree)
      in \<lparr>isValid = (length errs = 0), errors = errs\<rparr>)"

section \<open>Example inputs\<close>

definition sixMax :: SettingsData where
  \<comment> \<open>Six seats with 100 chips, blinds 1/2 and an ante of 1.\<close>
  "sixMax = \<lparr>stacks = [100, 100, 100, 100, 100, 100],
             blinds = \<lparr>sb = 1, bb = 2, ante = 1\<rparr>, playerCount = 6\<rparr>"

definition zeroStack :: SettingsData where
  \<comment> \<open>The two-seat table of the examples with no chips in seat 0.\<close>
  "zeroStack = \<lparr>stacks = [0, 200], blinds = \<lparr>sb = 1, bb = 2, ante = 0\<rparr>, playerCount = 2\<rparr>"

text \<open>
  A small tree: the root \<open>r\<close> offers a fold and two raises, the raise to 6 leads to \<open>r:0\<close>,
  where a call leads to \<open>r:0:0\<close>; the raise to 20 leads to \<open>r:1\<close>. The two leaves have the
  terminal flag (bit 0 of \<^verbatim>\<open>f\<close>).
\<close>

definition exampleTree :: OptimizedTree where
  "exampleTree =
     \<lparr>nodes =
        [(''r'', \<lparr>node_id = ''r'', node_p = None, node_pl = 0, node_s = 0,
                 node_a = [\<lparr>act_t = ''F'', act_amt = None, act_n = None\<rparr>,
                           \<lparr>act_t = ''R'', act_amt = Some 6, act_n = Some ''r:0''\<rparr>,
                           \<lparr>act_t = ''R'', act_amt = Some 20, act_n = Some ''r:1''\<rparr>],
                 node_d = 0, node_f = 2\<rparr>),
         (''r:0'', \<lparr>node_id = ''r:0'', node_p = Some ''r'', node_pl = 1, node_s = 0,
                   node_a = [\<lparr>act_t = ''F'', act_amt = None, act_n = None\<rparr>,
                             \<lparr>act_t = ''C'', act_amt = Some 6, act_n = Some ''r:0:0''\<rparr>],
                   node_d = 1, node_f = 2\<rparr>),
         (''r:1'', \<lparr>node_id = ''r:1'', node_p = Some ''r'', node_pl = 1, node_s = 0,
                   node_a = [], node_d = 1, node_f = 1\<rparr>),
         (''r:0:0'', \<lparr>node_id = ''r:0:0'', node_p = Some ''r:0'', node_pl = 0, node_s = 1,
                     node_a = [], node_d = 2, node_f = 1\<rparr>)],
      root = ''r''\<rparr>"

text \<open>
  A malformed node map: \<open>a\<close> and \<open>b\<close> lead to each other, both lead to the terminal
  node \<open>t\<close>, and \<open>b\<close> has a target that is not indexed.
\<close>

definition cyclicTree :: OptimizedTree where
  "cyclicTree =
     \<lparr>nodes =
        [(''a'', \<lparr>node_id = ''a'', node_p = Some ''b'', node_pl = 0, node_s = 0,
                 node_a = [\<lparr>act_t = ''C'', act_amt = None, act_n = Some ''b''\<rparr>,
                           \<lparr>act_t = ''F'', act_amt = None, act_n = Some ''t''\<rparr>],
                 node_d = 0, node_f = 0\<rparr>),
         (''b'', \<lparr>node_id = ''b'', node_p = Some ''a'', node_pl = 1, node_s = 0,
                 node_a = [\<lparr>act_t = ''C'', act_amt = None, act_n = Some ''a''\<rparr>,
                           \<lparr>act_t = ''F'', act_amt = None, act_n = Some ''t''\<rparr>,
                           \<lparr>act_t = ''X'', act_amt = None, act_n = Some ''gone''\<rparr>],
                 node_d = 1, node_f = 0\<rparr>),
         (''t'', \<lparr>node_id = ''t'', node_p = Some ''a'', node_pl = 0, node_s = 0,
                 node_a = [], node_d = 1, node_f = 1\<rparr>)],
      root = ''a''\<rparr>"

text \<open>A tree with a missing root, a dangling parent and a dangling action target.\<close>

definition danglingTree :: OptimizedTree where
  "danglingTree =
     \<lparr>nodes =
        [(''x'', \<lparr>node_id = ''x'', node_p = Some ''ghost'', node_pl = 0, node_s = 0,
                 node_a = [\<lparr>act_t = ''F'', act_amt = None, act_n = None\<rparr>,
                           \<lparr>act_t = ''C'', act_amt = None, act_n = Some ''nowhere''\<rparr>],
                 node_d = 0, node_f = 0\<rparr>)],
      root = ''missing''\<rparr>"

text \<open>
  A printer for the examples. Their amounts are whole numbers from 0 to 999, which
  \<^verbatim>\<open>toString\<close> prints in decimal; the quotient printer is not reached.
\<close>

definition examplePrinter :: NumberPrinter where
  "examplePrinter =
     \<lparr>toFixedDiv = (\<lambda>a b d. decimal (nat (a div b))), toString = (\<lambda>a. decimal (nat a))\<rparr>"

section \<open>Stack reconstruction\<close>

lemma num_or_zero: "num_or v 0 = v"
  by (simp add: num_or_def)

lemma js_index_Nil: "js_index [] i = None"
  by (simp add: js_index_def)

lemma js_index_Cons: "js_index (x # xs) i = (if i = 0 then Some x else js_index xs (i - 1))"
proof (cases "i = 0")
  case True
  then show ?thesis by (simp add: js_index_def)
next
  case False
  show ?thesis
  proof (cases "0 < i")
    case True
    then have "nat i = Suc (nat (i - 1))" by simp
    with True False show ?thesis by (auto simp add: js_index_def)
  next
    case neg: False
    with False have "i < 0" by simp
    then show ?thesis by (simp add: js_index_def)
  qed
qed

text \<open>The loop over the sequence subtracts the sum of the amounts it selects.\<close>

lemma foldl_subtractAction:
  "foldl (subtractAction i) c actionSequence =
     c - sum_list (map amount (filter (movesChips i) actionSequence))"
  by (induction actionSequence arbitrary: c) (simp_all add: subtractAction_def num_or_zero)

text \<open>With two to nine players the last two seats are the small and the big blind.\<close>

lemma seat_SB:
  assumes "2 \<le> pc" "pc \<le> 9"
  shows "js_index (getPositionNames pc) i = Some ''SB'' \<longleftrightarrow> i = int pc - 2"
proof -
  from assms have "pc = 2 \<or> pc = 3 \<or> pc = 4 \<or> pc = 5 \<or> pc = 6 \<or> pc = 7 \<or> pc = 8 \<or> pc = 9"
    by arith
  then show ?thesis
    by (elim disjE) (auto simp add: getPositionNames_def js_index_Cons js_index_Nil)
qed

lemma seat_BB:
  assumes "2 \<le> pc" "pc \<le> 9"
  shows "js_index (getPositionNames pc) i = Some ''BB'' \<longleftrightarrow> i = int pc - 1"
proof -
  from assms have "pc = 2 \<or> pc = 3 \<or> pc = 4 \<or> pc = 5 \<or> pc = 6 \<or> pc = 7 \<or> pc = 8 \<or> pc = 9"
    by arith
  then show ?thesis
    by (elim disjE) (auto simp add: getPositionNames_def js_index_Cons js_index_Nil)
qed

lemma stack_formula:
  "calculatePlayerStackAbsolute i s actionSequence =
     max 0 (initialStack s i
            - (if js_index (getPositionNames (if playerCount s = 0 then 2 else playerCount s)) i
                  = Some ''SB''
               then sb (blinds s) else 0)
            - (if js_index (getPositionNames (if playerCount s = 0 then 2 else playerCount s)) i
                  = Some ''BB''
               then bb (blinds s) else 0)
            - (if ante (blinds s) > 0 then ante (blinds s) else 0)
            - sum_list (map amount (filter (movesChips i) actionSequence)))"
  by (simp add: calculatePlayerStackAbsolute_def Let_def foldl_subtractAction num_or_zero)

lemma initialStack_present:
  "0 \<le> i \<Longrightarrow> i < int (length (stacks s)) \<Longrightarrow> stacks s ! nat i \<noteq> 0 \<Longrightarrow>
     initialStack s i = stacks s ! nat i"
  by (simp add: initialStack_def js_index_def opt_num_or_def num_or_def)

lemma initialStack_missing:
  "i < 0 \<or> int (length (stacks s)) \<le> i \<Longrightarrow> initialStack s i = 4000000"
  by (auto simp add: initialStack_def js_index_def opt_num_or_def)

text \<open>
  The rule of the stack reconstruction. With stacks [200, 200], blinds 1/2, no ante and the
  empty sequence, seat 0 has 199 and seat 1 has 198. For a seat whose entry of \<open>stacks\<close> is
  present and not zero the result is that entry, less the small blind when the position
  table names the seat \<^verbatim>\<open>SB\<close>, less the big blind when it names it \<^verbatim>\<open>BB\<close>, less the ante
  when it is positive, less the amounts of the seat's calls, raises and all-ins in the
  sequence, and not below zero.
\<close>

lemma stack_reconstruction_examples:
  "calculatePlayerStackAbsolute 0 headsUp [] = 199"
  "calculatePlayerStackAbsolute 1 headsUp [] = 198"
  by code_simp+

lemma stack_rule_nonzero_entry:
  assumes "0 \<le> i" and "i < int (length (stacks s))" and "stacks s ! nat i \<noteq> 0"
  shows "calculatePlayerStackAbsolute i s actionSequence =
     max 0 (stacks s ! nat i
            - (if js_index (getPositionNames (if playerCount s = 0 then 2 else playerCount s)) i
                  = Some ''SB''
               then sb (blinds s) else 0)
            - (if js_index (getPositionNames (if playerCount s = 0 then 2 else playerCount s)) i
                  = Some ''BB''
               then bb (blinds s) else 0)
            - (if ante (blinds s) > 0 then ante (blinds s) else 0)
            - sum_list (map amount (filter (movesChips i) actionSequence)))"
  unfolding stack_formula using initialStack_present [OF assms] by simp

text \<open>
  Claim C4. The rule of the claim fails for a seat whose entry of \<open>stacks\<close> is zero: line 35,
  \<^verbatim>\<open>initialStacks[playerIndex] || 4000000\<close>, takes the zero for a missing entry. With stacks
  [0, 200], blinds 1/2 and no ante, the small-blind seat 0 has no chips, and the
  reconstruction gives it 3,999,999: the default of 4,000,000 less the small blind.
\<close>

theorem zero_stack_takes_default:
  "stacks zeroStack ! 0 = 0 \<and>
   js_index (getPositionNames (playerCount zeroStack)) 0 = Some ''SB'' \<and>
   calculatePlayerStackAbsolute 0 zeroStack [] = 3999999"
  by code_simp

text \<open>
  Claim C2, as stated, fails: the function has no error result. At seat index 2 of the
  two-seat table it returns the default stack of 4,000,000.
\<close>

theorem out_of_range_counterexample:
  "\<not> ((0::int) \<le> 2 \<and> 2 < int (playerCount headsUp)) \<and>
   calculatePlayerStackAbsolute 2 headsUp [] = 4000000"
  by code_simp

text \<open>
  Claim C2, amended. With one stack per seat for two to nine players, every index outside
  the seats gets a number, not an error: the default of 4,000,000 stands for the missing
  stack, no blind is taken, the ante is taken when positive, the amounts of the index's
  calls, raises and all-ins are taken, and the result is not below zero.
\<close>

theorem out_of_range_default:
  assumes "2 \<le> playerCount s" and "playerCount s \<le> 9"
    and "length (stacks s) = playerCount s"
    and "i < 0 \<or> int (playerCount s) \<le> i"
  shows "calculatePlayerStackAbsolute i s actionSequence =
           max 0 (4000000
                  - (if ante (blinds s) > 0 then ante (blinds s) else 0)
                  - sum_list (map amount (filter (movesChips i) actionSequence)))"
proof -
  from assms have nz: "playerCount s \<noteq> 0" by simp
  from assms have init: "initialStack s i = 4000000"
    by (intro initialStack_missing) simp
  from assms have "i \<noteq> int (playerCount s) - 2" "i \<noteq> int (playerCount s) - 1"
    by auto
  with assms(1,2) nz init show ?thesis
    unfolding stack_formula by (simp add: seat_SB seat_BB)
qed

theorem out_of_range_default_witness:
  "2 \<le> playerCount sixMax \<and> playerCount sixMax \<le> 9 \<and>
   length (stacks sixMax) = playerCount sixMax \<and>
   ((7::int) < 0 \<or> int (playerCount sixMax) \<le> 7) \<and>
   calculatePlayerStackAbsolute 7 sixMax [\<lparr>player = 7, type = ''R'', amount = 50, street = 0\<rparr>]
     = 3999949"
proof -
  have h: "2 \<le> playerCount sixMax" "playerCount sixMax \<le> 9"
    "length (stacks sixMax) = playerCount sixMax"
    "(7::int) < 0 \<or> int (playerCount sixMax) \<le> 7"
    by (simp_all add: sixMax_def)
  from out_of_range_default [OF h, of "[\<lparr>player = 7, type = ''R'', amount = 50, street = 0\<rparr>]"] h
  show ?thesis by (simp add: sixMax_def movesChips_def)
qed

text \<open>
  Claim C5. \<open>isActionAllIn\<close> holds exactly when the amount is at least the stack that
  \<open>calculatePlayerStackAbsolute\<close> reconstructs from the sequence before the action; with
  stacks [200, 200], blinds 1/2, no ante and the empty sequence, seat 0 has 199 and a wager
  of 10 is not all-in.
\<close>

theorem isActionAllIn_iff:
  "(isActionAllIn actionAmount i s actionSequence \<longleftrightarrow>
      calculatePlayerStackAbsolute i s actionSequence \<le> actionAmount) \<and>
   calculatePlayerStackAbsolute 0 headsUp [] = 199 \<and>
   \<not> isActionAllIn 10 0 headsUp []"
proof (intro conjI)
  show "isActionAllIn actionAmount i s actionSequence \<longleftrightarrow>
      calculatePlayerStackAbsolute i s actionSequence \<le> actionAmount"
    by (simp add: isActionAllIn_def)
  show "calculatePlayerStackAbsolute 0 headsUp [] = 199" by code_simp
  show "\<not> isActionAllIn 10 0 headsUp []" by code_simp
qed

theorem isActionAllIn_iff_witness:
  "isActionAllIn 199 0 headsUp [] \<and> \<not> isActionAllIn 198 0 headsUp []"
  using isActionAllIn_iff [of 199 0 headsUp "[]"] isActionAllIn_iff [of 198 0 headsUp "[]"]
  by simp

section \<open>Pot and contributions\<close>

text \<open>
  Claim C1, as stated, fails: on the spec's sequence the current-street contribution of
  seat 1 is not 6.
\<close>

theorem pot_contributions_counterexample:
  "playerCurrentStreetContributions (calculatePotAndContributions headsUp 0 replaceVsAdd) ! 1
     \<noteq> Num 6"
  by code_simp

text \<open>
  Claim C1, amended. With two players, blinds 1/2 and no ante, on street 0, after seat 0
  raises to 6, seat 1 calls 6 and seat 0 raises to 20, the current-street contribution of
  seat 0 is 20 (the second raise replaces the first) and that of seat 1 is 8: the call of 6
  is added to the big blind of 2 posted on that street.
\<close>

theorem pot_contributions_example:
  "playerCurrentStreetContributions (calculatePotAndContributions headsUp 0 replaceVsAdd)
     = [Num 20, Num 8]"
  by code_simp

section \<open>Action labels\<close>

text \<open>
  Claim C3. The navigator's label function has no case for the all-in type \<^verbatim>\<open>'A'\<close>: the
  label of an all-in is the type itself, not \<^verbatim>\<open>All-in\<close>.
\<close>

theorem formatActionLabel_all_in:
  "formatActionLabel pr ''A'' amt = ''A'' \<and> formatActionLabel pr ''A'' amt \<noteq> ''All-in''"
  by (simp add: formatActionLabel_def)

text \<open>The other cases of the label function and the thresholds of the amounts.\<close>

lemma formatActionLabel_cases:
  "formatActionLabel pr ''F'' amt = ''Fold''"
  "formatActionLabel pr ''C'' amt = ''Call''"
  "formatActionLabel pr ''X'' amt = ''Check''"
  "amt > 0 \<Longrightarrow> formatActionLabel pr ''R'' amt = ''Raise '' @ formatAmount pr amt"
  "amt \<le> 0 \<Longrightarrow> formatActionLabel pr ''R'' amt = ''Raise''"
  by (simp_all add: formatActionLabel_def)

lemma formatAmount_cases:
  "amt \<ge> 1000000 \<Longrightarrow> formatAmount pr amt = toFixedDiv pr amt 1000000 1 @ ''M''"
  "1000 \<le> amt \<Longrightarrow> amt < 1000000 \<Longrightarrow> formatAmount pr amt = toFixedDiv pr amt 1000 0 @ ''K''"
  "amt < 1000 \<Longrightarrow> formatAmount pr amt = toString pr amt"
  by (simp_all add: formatAmount_def)

section \<open>Navigation by path\<close>

text \<open>
  Claim C10. With no action type to consume, \<open>navigateByPath\<close> returns the start id, whether
  the node index has it or not; the index is consulted only when there is an action type
  to consume, and then an absent start node gives no result.
\<close>

theorem navigateByPath_empty:
  "navigateByPath nav startNodeId [] = Some startNodeId \<and>
   (nodeCache nav startNodeId = None \<longrightarrow>
      navigateByPath nav startNodeId (actionType # rest) = None)"
  by simp

theorem navigateByPath_empty_witness:
  "nodeCache (newNavigator \<lparr>nodes = [], root = ''r''\<rparr>) ''x'' = None \<and>
   navigateByPath (newNavigator \<lparr>nodes = [], root = ''r''\<rparr>) ''x'' [] = Some ''x'' \<and>
   navigateByPath (newNavigator \<lparr>nodes = [], root = ''r''\<rparr>) ''x'' [''C''] = None"
  using navigateByPath_empty [of "newNavigator \<lparr>nodes = [], root = ''r''\<rparr>" "''x''" "''C''" "[]"]
  by (simp add: newNavigator_def buildCache_def)

text \<open>The first match in a filtered and mapped list is the image of a first match in the list.\<close>

lemma find_map_filter:
  "find P (map g (filter Q xs)) = map_option g (find (\<lambda>x. P (g x) \<and> Q x) xs)"
  by (induction xs) simp_all

lemma find_available:
  "find (\<lambda>a. nav_type a = actionType) (getAvailableActions pr nav nodeId) =
     (case nodeCache nav nodeId of
        None \<Rightarrow> None
      | Some node \<Rightarrow>
          map_option
            (\<lambda>action.
               \<lparr>nav_label = formatActionLabel pr (act_t action) (opt_num_or (act_amt action) 0),
                nav_targetNode = the (act_n action),
                nav_type = act_t action,
                nav_amount = opt_num_or (act_amt action) 0\<rparr>)
            (find (\<lambda>a. act_t a = actionType \<and> truthy (act_n a)) (node_a node)))"
  by (simp add: getAvailableActions_def find_map_filter split: option.split)

lemma find_holds: "find P xs = Some x \<Longrightarrow> P x"
  by (induction xs) (auto split: if_splits)

lemma replay_eq_navigate:
  "replayByAvailableActions pr nav nodeId actionTypes = navigateByPath nav nodeId actionTypes"
proof (induction actionTypes arbitrary: nodeId)
  case Nil
  show ?case by simp
next
  case (Cons actionType rest)
  show ?case
  proof (cases "nodeCache nav nodeId")
    case None
    then show ?thesis by (simp add: find_available)
  next
    case (Some node)
    show ?thesis
    proof (cases "find (\<lambda>a. act_t a = actionType \<and> truthy (act_n a)) (node_a node)")
      case None
      with Some show ?thesis by (simp add: find_available)
    next
      case found: (Some action)
      then have "truthy (act_n action)" by (auto dest: find_holds)
      with Some found Cons.IH show ?thesis by (simp add: find_available)
    qed
  qed
qed

text \<open>
  Claim C6. Whenever \<open>navigateByPath\<close> from the root of an indexed tree returns a node id
  for a list of action types, replaying the list from the root, each step through the
  available actions of the current node (the actions with a target, in declaration
  order) and along the first one of the requested type, returns the same node id.
\<close>

theorem navigate_replay_round_trip:
  "navigateByPath (newNavigator tree) (root tree) actionTypes = Some target \<Longrightarrow>
     replayByAvailableActions pr (newNavigator tree) (root tree) actionTypes = Some target"
  by (simp add: replay_eq_navigate)

lemma exampleTree_navigate:
  "navigateByPath (newNavigator exampleTree) (root exampleTree) [''R'', ''C''] = Some ''r:0:0''"
  by code_simp

theorem navigate_replay_round_trip_witness:
  "navigateByPath (newNavigator exampleTree) (root exampleTree) [''R'', ''C''] = Some ''r:0:0'' \<and>
   replayByAvailableActions examplePrinter (newNavigator exampleTree) (root exampleTree) [''R'', ''C'']
     = Some ''r:0:0''"
  using navigate_replay_round_trip [OF exampleTree_navigate] exampleTree_navigate by simp

section \<open>Validation\<close>

text \<open>Each loop of the validation appends to the errors it is given.\<close>

lemma foldl_checkAction_append:
  "foldl (checkAction ids k) errs ias = errs @ foldl (checkAction ids k) [] ias"
proof (induction ias arbitrary: errs)
  case Nil
  show ?case by simp
next
  case (Cons ia ias)
  have "foldl (checkAction ids k) errs (ia # ias) = foldl (checkAction ids k) (checkAction ids k errs ia) ias"
    by simp
  also have "\<dots> = checkAction ids k errs ia @ foldl (checkAction ids k) [] ias"
    by (rule Cons.IH)
  also have "checkAction ids k errs ia = errs @ checkAction ids k [] ia"
    by (simp add: checkAction_def split: prod.split)
  also have "(errs @ checkAction ids k [] ia) @ foldl (checkAction ids k) [] ias
      = errs @ foldl (checkAction ids k) [] (ia # ias)"
    using Cons.IH [of "checkAction ids k [] ia"] by simp
  finally show ?case .
qed

lemma set_foldl_checkAction:
  "set (foldl (checkAction ids k) [] ias) =
     {actionError k index (the (act_n action)) | index action.
        (index, action) \<in> set ias \<and> truthy (act_n action) \<and> the (act_n action) \<notin> ids}"
proof (induction ias)
  case Nil
  show ?case by simp
next
  case (Cons ia ias)
  obtain index action where ia: "ia = (index, action)" by (cases ia)
  have one: "set (checkAction ids k [] ia) =
      (if truthy (act_n action) \<and> the (act_n action) \<notin> ids
       then {actionError k index (the (act_n action))} else {})"
    by (simp add: ia checkAction_def)
  have "foldl (checkAction ids k) [] (ia # ias)
      = checkAction ids k [] ia @ foldl (checkAction ids k) [] ias"
    using foldl_checkAction_append [of ids k "checkAction ids k [] ia" ias] by simp
  then have "set (foldl (checkAction ids k) [] (ia # ias))
      = set (checkAction ids k [] ia) \<union> set (foldl (checkAction ids k) [] ias)"
    by simp
  also have "\<dots> = (if truthy (act_n action) \<and> the (act_n action) \<notin> ids
       then {actionError k index (the (act_n action))} else {}) \<union>
     {actionError k index' (the (act_n action')) | index' action'.
        (index', action') \<in> set ias \<and> truthy (act_n action') \<and> the (act_n action') \<notin> ids}"
    by (simp only: one Cons.IH)
  also have "\<dots> = {actionError k index' (the (act_n action')) | index' action'.
        (index', action') \<in> set (ia # ias) \<and> truthy (act_n action') \<and> the (act_n action') \<notin> ids}"
    by (auto simp add: ia)
  finally show ?case .
qed

lemma checkNode_parent_actions:
  "checkNode ids errs (k, node) =
     errs @ (if truthy (node_p node) \<and> the (node_p node) \<notin> ids
             then [parentError k (the (node_p node))] else [])
          @ foldl (checkAction ids k) [] (enumerate 0 (node_a node))"
proof -
  define pe where "pe = (if truthy (node_p node) \<and> the (node_p node) \<notin> ids
             then [parentError k (the (node_p node))] else [])"
  have "checkNode ids errs (k, node) = foldl (checkAction ids k) (errs @ pe) (enumerate 0 (node_a node))"
    by (simp add: checkNode_def pe_def)
  also have "\<dots> = (errs @ pe) @ foldl (checkAction ids k) [] (enumerate 0 (node_a node))"
    by (rule foldl_checkAction_append)
  finally show ?thesis by (simp add: pe_def)
qed

lemma checkNode_append:
  "checkNode ids errs entry = errs @ checkNode ids [] entry"
proof -
  obtain k node where e: "entry = (k, node)" by (cases entry)
  show ?thesis
    unfolding e by (simp add: checkNode_parent_actions [of ids errs] checkNode_parent_actions [of ids "[]"])
qed

lemma foldl_checkNode_append:
  "foldl (checkNode ids) errs entries = errs @ foldl (checkNode ids) [] entries"
proof (induction entries arbitrary: errs)
  case Nil
  show ?case by simp
next
  case (Cons e es)
  have "foldl (checkNode ids) errs (e # es) = checkNode ids errs e @ foldl (checkNode ids) [] es"
    using Cons.IH [of "checkNode ids errs e"] by simp
  also have "\<dots> = errs @ checkNode ids [] e @ foldl (checkNode ids) [] es"
    using checkNode_append [of ids errs e] by simp
  also have "checkNode ids [] e @ foldl (checkNode ids) [] es = foldl (checkNode ids) [] (e # es)"
    using Cons.IH [of "checkNode ids [] e"] by simp
  finally show ?case .
qed

lemma set_checkNode:
  "set (checkNode ids [] (k, node)) =
     (if truthy (node_p node) \<and> the (node_p node) \<notin> ids
      then {parentError k (the (node_p node))} else {}) \<union>
     {actionError k index (the (act_n action)) | index action.
        (index, action) \<in> set (enumerate 0 (node_a node)) \<and>
        truthy (act_n action) \<and> the (act_n action) \<notin> ids}"
  by (auto simp add: checkNode_parent_actions set_foldl_checkAction)

lemma set_foldl_checkNode:
  "set (foldl (checkNode ids) [] entries) = (\<Union>e \<in> set entries. set (checkNode ids [] e))"
proof (induction entries)
  case Nil
  show ?case by simp
next
  case (Cons e es)
  have "foldl (checkNode ids) [] (e # es) = checkNode ids [] e @ foldl (checkNode ids) [] es"
    using foldl_checkNode_append [of ids "checkNode ids [] e" es] by simp
  then show ?case using Cons.IH by simp
qed

lemma errors_validate:
  "errors (validateCompactTree tree) =
     (if root tree \<notin> fst ` set (nodes tree) then [rootError (root tree)] else [])
     @ foldl (checkNode (fst ` set (nodes tree))) [] (nodes tree)"
proof -
  have "errors (validateCompactTree tree) =
      foldl (checkNode (fst ` set (nodes tree)))
        (if root tree \<notin> fst ` set (nodes tree) then [rootError (root tree)] else [])
        (nodes tree)"
    by (simp add: validateCompactTree_def Let_def)
  also have "\<dots> = (if root tree \<notin> fst ` set (nodes tree) then [rootError (root tree)] else [])
     @ foldl (checkNode (fst ` set (nodes tree))) [] (nodes tree)"
    by (rule foldl_checkNode_append)
  finally show ?thesis .
qed

lemma isValid_validate:
  "isValid (validateCompactTree tree) \<longleftrightarrow> errors (validateCompactTree tree) = []"
  by (simp add: validateCompactTree_def Let_def)

lemma set_errors_validate:
  "set (errors (validateCompactTree tree)) =
     (if root tree \<notin> fst ` set (nodes tree) then {rootError (root tree)} else {}) \<union>
     (\<Union>e \<in> set (nodes tree). set (checkNode (fst ` set (nodes tree)) [] e))"
  by (simp add: errors_validate set_foldl_checkNode)

lemma invalid_if_error: "e \<in> set (errors (validateCompactTree tree)) \<Longrightarrow> \<not> isValid (validateCompactTree tree)"
  by (auto simp add: isValid_validate)

text \<open>
  Claim C8. Validation collects every violation. A root id that is no key of the node map
  gives an invalid result with the error naming the root; every entry whose parent
  reference is no key gives an invalid result with the error naming the entry's id and
  the parent; every action whose target is no key gives an invalid result with the error
  naming the entry's id, the action's index and the target; and a tree with none of these
  is valid with no errors. A reference is present when it is truthy, as the code tests it:
  \<^verbatim>\<open>null\<close>, \<^verbatim>\<open>undefined\<close> and the empty string are no reference.
\<close>

theorem validation_accumulates:
  "(root tree \<notin> fst ` set (nodes tree) \<longrightarrow>
      \<not> isValid (validateCompactTree tree) \<and>
      ''Root node '' @ root tree @ '' not found'' \<in> set (errors (validateCompactTree tree))) \<and>
   (\<forall>(nodeId, node) \<in> set (nodes tree).
      truthy (node_p node) \<and> the (node_p node) \<notin> fst ` set (nodes tree) \<longrightarrow>
        \<not> isValid (validateCompactTree tree) \<and>
        ''Node '' @ nodeId @ '' references non-existent parent '' @ the (node_p node)
          \<in> set (errors (validateCompactTree tree))) \<and>
   (\<forall>(nodeId, node) \<in> set (nodes tree). \<forall>index < length (node_a node).
      truthy (act_n (node_a node ! index)) \<and>
      the (act_n (node_a node ! index)) \<notin> fst ` set (nodes tree) \<longrightarrow>
        \<not> isValid (validateCompactTree tree) \<and>
        ''Node '' @ nodeId @ '' action '' @ decimal index @ '' references non-existent node ''
            @ the (act_n (node_a node ! index))
          \<in> set (errors (validateCompactTree tree))) \<and>
   (root tree \<in> fst ` set (nodes tree) \<and>
    (\<forall>(nodeId, node) \<in> set (nodes tree).
       (truthy (node_p node) \<longrightarrow> the (node_p node) \<in> fst ` set (nodes tree)) \<and>
       (\<forall>action \<in> set (node_a node).
          truthy (act_n action) \<longrightarrow> the (act_n action) \<in> fst ` set (nodes tree))) \<longrightarrow>
      isValid (validateCompactTree tree) \<and> errors (validateCompactTree tree) = [])"
proof (intro conjI)
  show "root tree \<notin> fst ` set (nodes tree) \<longrightarrow>
      \<not> isValid (validateCompactTree tree) \<and>
      ''Root node '' @ root tree @ '' not found'' \<in> set (errors (validateCompactTree tree))"
  proof
    assume "root tree \<notin> fst ` set (nodes tree)"
    then have "rootError (root tree) \<in> set (errors (validateCompactTree tree))"
      by (simp add: set_errors_validate)
    then show "\<not> isValid (validateCompactTree tree) \<and>
      ''Root node '' @ root tree @ '' not found'' \<in> set (errors (validateCompactTree tree))"
      using invalid_if_error by (auto simp add: rootError_def)
  qed
next
  show "\<forall>(nodeId, node) \<in> set (nodes tree).
      truthy (node_p node) \<and> the (node_p node) \<notin> fst ` set (nodes tree) \<longrightarrow>
        \<not> isValid (validateCompactTree tree) \<and>
        ''Node '' @ nodeId @ '' references non-existent parent '' @ the (node_p node)
          \<in> set (errors (validateCompactTree tree))"
  proof (intro ballI, clarify)
    fix nodeId node
    assume e: "(nodeId, node) \<in> set (nodes tree)"
      and p: "truthy (node_p node)" "the (node_p node) \<notin> fst ` set (nodes tree)"
    from p have "parentError nodeId (the (node_p node))
        \<in> set (checkNode (fst ` set (nodes tree)) [] (nodeId, node))"
      by (simp add: set_checkNode)
    with e have "parentError nodeId (the (node_p node)) \<in> set (errors (validateCompactTree tree))"
      unfolding set_errors_validate by blast
    then show "\<not> isValid (validateCompactTree tree) \<and>
        ''Node '' @ nodeId @ '' references non-existent parent '' @ the (node_p node)
          \<in> set (errors (validateCompactTree tree))"
      using invalid_if_error by (auto simp add: parentError_def)
  qed
next
  show "\<forall>(nodeId, node) \<in> set (nodes tree). \<forall>index < length (node_a node).
      truthy (act_n (node_a node ! index)) \<and>
      the (act_n (node_a node ! index)) \<notin> fst ` set (nodes tree) \<longrightarrow>
        \<not> isValid (validateCompactTree tree) \<and>
        ''Node '' @ nodeId @ '' action '' @ decimal index @ '' references non-existent node ''
            @ the (act_n (node_a node ! index))
          \<in> set (errors (validateCompactTree tree))"
  proof (intro ballI allI impI, clarify)
    fix nodeId node index
    assume e: "(nodeId, node) \<in> set (nodes tree)"
      and i: "index < length (node_a node)"
      and n: "truthy (act_n (node_a node ! index))"
        "the (act_n (node_a node ! index)) \<notin> fst ` set (nodes tree)"
    from i have "(index, node_a node ! index) \<in> set (enumerate 0 (node_a node))"
      by (simp add: in_set_enumerate_eq)
    with n have "actionError nodeId index (the (act_n (node_a node ! index)))
        \<in> set (checkNode (fst ` set (nodes tree)) [] (nodeId, node))"
      unfolding set_checkNode by blast
    with e have "actionError nodeId index (the (act_n (node_a node ! index)))
        \<in> set (errors (validateCompactTree tree))"
      unfolding set_errors_validate by blast
    then show "\<not> isValid (validateCompactTree tree) \<and>
        ''Node '' @ nodeId @ '' action '' @ decimal index @ '' references non-existent node ''
            @ the (act_n (node_a node ! index))
          \<in> set (errors (validateCompactTree tree))"
      using invalid_if_error by (auto simp add: actionError_def)
  qed
next
  show "root tree \<in> fst ` set (nodes tree) \<and>
    (\<forall>(nodeId, node) \<in> set (nodes tree).
       (truthy (node_p node) \<longrightarrow> the (node_p node) \<in> fst ` set (nodes tree)) \<and>
       (\<forall>action \<in> set (node_a node).
          truthy (act_n action) \<longrightarrow> the (act_n action) \<in> fst ` set (nodes tree))) \<longrightarrow>
      isValid (validateCompactTree tree) \<and> errors (validateCompactTree tree) = []"
  proof (intro impI, elim conjE)
    assume r: "root tree \<in> fst ` set (nodes tree)"
      and ok: "\<forall>(nodeId, node) \<in> set (nodes tree).
       (truthy (node_p node) \<longrightarrow> the (node_p node) \<in> fst ` set (nodes tree)) \<and>
       (\<forall>action \<in> set (node_a node).
          truthy (act_n action) \<longrightarrow> the (act_n action) \<in> fst ` set (nodes tree))"
    have "set (checkNode (fst ` set (nodes tree)) [] e) = {}" if "e \<in> set (nodes tree)" for e
    proof -
      obtain k node where e: "e = (k, node)" by (cases e)
      from ok that e have p: "truthy (node_p node) \<longrightarrow> the (node_p node) \<in> fst ` set (nodes tree)"
        and a: "\<forall>action \<in> set (node_a node).
          truthy (act_n action) \<longrightarrow> the (act_n action) \<in> fst ` set (nodes tree)"
        by auto
      have "\<And>index action. (index, action) \<in> set (enumerate 0 (node_a node)) \<Longrightarrow>
          action \<in> set (node_a node)"
        by (auto simp add: in_set_enumerate_eq)
      with p a show ?thesis unfolding e set_checkNode by auto
    qed
    with r have "set (errors (validateCompactTree tree)) = {}"
      by (simp add: set_errors_validate)
    then show "isValid (validateCompactTree tree) \<and> errors (validateCompactTree tree) = []"
      by (simp add: isValid_validate)
  qed
qed

lemma decimal_1: "decimal (Suc 0) = ''1''" by code_simp

theorem validation_accumulates_witness:
  "root danglingTree \<notin> fst ` set (nodes danglingTree) \<and>
   \<not> isValid (validateCompactTree danglingTree) \<and>
   ''Root node missing not found'' \<in> set (errors (validateCompactTree danglingTree)) \<and>
   ''Node x references non-existent parent ghost'' \<in> set (errors (validateCompactTree danglingTree)) \<and>
   ''Node x action 1 references non-existent node nowhere''
      \<in> set (errors (validateCompactTree danglingTree)) \<and>
   root exampleTree \<in> fst ` set (nodes exampleTree) \<and>
   isValid (validateCompactTree exampleTree) \<and> errors (validateCompactTree exampleTree) = []"
proof -
  have bad: "root danglingTree \<notin> fst ` set (nodes danglingTree)"
    by (simp add: danglingTree_def)
  have good: "root exampleTree \<in> fst ` set (nodes exampleTree)"
    by (simp add: exampleTree_def)
  note d = validation_accumulates [of danglingTree]
  note e = validation_accumulates [of exampleTree]
  from d bad have 1: "\<not> isValid (validateCompactTree danglingTree)"
    "''Root node missing not found'' \<in> set (errors (validateCompactTree danglingTree))"
    by (simp_all add: danglingTree_def)
  from d have 2: "''Node x references non-existent parent ghost''
      \<in> set (errors (validateCompactTree danglingTree))"
    by (simp add: danglingTree_def truthy_def)
  from d have 3: "''Node x action 1 references non-existent node nowhere''
      \<in> set (errors (validateCompactTree danglingTree))"
    by (simp add: danglingTree_def truthy_def decimal_1 All_less_Suc numeral_2_eq_2)
  from e have 4: "isValid (validateCompactTree exampleTree) \<and> errors (validateCompactTree exampleTree) = []"
    by (simp add: exampleTree_def truthy_def)
  from bad good 1 2 3 4 show ?thesis by blast
qed

section \<open>Breadcrumbs\<close>

text \<open>The keys of the node index are the keys of the tree's node map.\<close>

lemma buildCache_foldl:
  "foldl (\<lambda>m (k, node). m(k \<mapsto> node)) m0 entries k = None \<longleftrightarrow>
     m0 k = None \<and> k \<notin> fst ` set entries"
  by (induction entries arbitrary: m0) (auto split: prod.splits)

lemma dom_buildCache: "dom (buildCache entries) = fst ` set entries"
  using buildCache_foldl [of Map.empty entries] by (auto simp add: buildCache_def dom_def)

text \<open>The loop does not run on an absent node or on a node without parent.\<close>

lemma walkParents_absent: "walkParents pr cache None crumbs = Some (None, crumbs)"
  by (subst walkParents.simps) simp

lemma walkParents_parentless:
  "\<not> truthy (node_p cur) \<Longrightarrow> walkParents pr cache (Some cur) crumbs = Some (Some cur, crumbs)"
  by (subst walkParents.simps) simp

lemma computeBreadcrumbs_absent:
  "cache nodeId = None \<Longrightarrow> computeBreadcrumbs pr cache nodeId = Some []"
  by (simp add: computeBreadcrumbs_def walkParents_absent addRoot_def)

lemma computeBreadcrumbs_parentless:
  "cache nodeId = Some r \<Longrightarrow> \<not> truthy (node_p r) \<Longrightarrow>
     computeBreadcrumbs pr cache nodeId =
       Some [\<lparr>crumb_nodeId = node_id r, crumb_label = ''Start'',
              crumb_player = node_pl r, crumb_action = ''ROOT''\<rparr>]"
  by (simp add: computeBreadcrumbs_def walkParents_parentless addRoot_def)

text \<open>The invariant of the navigator: the index is the tree's, and a cached trail is the computed one.\<close>

lemma reachable_invariant:
  assumes "reachable pr tree nav"
  shows "nodeCache nav = buildCache (nodes tree) \<and>
         (\<forall>k crumbs. breadcrumbCache nav k = Some crumbs \<longrightarrow>
            computeBreadcrumbs pr (nodeCache nav) k = Some crumbs)"
  using assms
proof (induction rule: reachable.induct)
  case constructed
  show ?case by (simp add: newNavigator_def)
next
  case (queried nav nodeId crumbs nav')
  show ?case
  proof (cases "breadcrumbCache nav nodeId")
    case (Some cached)
    with queried.hyps(2) have "nav' = nav" by (simp add: getBreadcrumbs_def)
    with queried.IH show ?thesis by blast
  next
    case None
    with queried.hyps(2) have c: "computeBreadcrumbs pr (nodeCache nav) nodeId = Some crumbs"
      and n: "nav' = nav\<lparr>breadcrumbCache := (breadcrumbCache nav)(nodeId \<mapsto> crumbs)\<rparr>"
      by (auto simp add: getBreadcrumbs_def split: option.splits)
    from queried.IH c show ?thesis unfolding n by auto
  qed
next
  case (cleared nav)
  then show ?case by (simp add: clearCaches_def)
qed

lemma getBreadcrumbs_computed:
  assumes "reachable pr tree nav"
  shows "map_option fst (getBreadcrumbs pr nav nodeId) = computeBreadcrumbs pr (nodeCache nav) nodeId"
proof (cases "breadcrumbCache nav nodeId")
  case None
  then show ?thesis by (simp add: getBreadcrumbs_def split: option.split)
next
  case (Some cached)
  with reachable_invariant [OF assms]
  have "computeBreadcrumbs pr (nodeCache nav) nodeId = Some cached" by blast
  with Some show ?thesis by (simp add: getBreadcrumbs_def)
qed

lemma errors_root_missing:
  "root tree \<notin> fst ` set (nodes tree) \<Longrightarrow> \<not> isValid (validateCompactTree tree)"
  using invalid_if_error [of "rootError (root tree)" tree] by (simp add: set_errors_validate)

text \<open>
  Claim C9. On every navigator a caller can hold for a valid tree whose root node has no
  parent, the breadcrumbs of the root are exactly one entry, the entry of the root with
  the label \<^verbatim>\<open>Start\<close>; and the breadcrumbs of an id that the node index does not have
  are the empty list.
\<close>

theorem breadcrumbs_root_and_absent:
  assumes "reachable pr tree nav"
  shows "(isValid (validateCompactTree tree) \<and>
          (\<forall>r. nodeCache nav (root tree) = Some r \<longrightarrow> \<not> truthy (node_p r)) \<longrightarrow>
            (\<exists>r. nodeCache nav (root tree) = Some r \<and>
                 map_option fst (getBreadcrumbs pr nav (root tree)) =
                   Some [\<lparr>crumb_nodeId = node_id r, crumb_label = ''Start'',
                          crumb_player = node_pl r, crumb_action = ''ROOT''\<rparr>])) \<and>
         (nodeCache nav nodeId = None \<longrightarrow>
            map_option fst (getBreadcrumbs pr nav nodeId) = Some [])"
proof (intro conjI impI)
  assume h: "isValid (validateCompactTree tree) \<and>
          (\<forall>r. nodeCache nav (root tree) = Some r \<longrightarrow> \<not> truthy (node_p r))"
  then have "root tree \<in> fst ` set (nodes tree)"
    using errors_root_missing by blast
  then have "root tree \<in> dom (nodeCache nav)"
    using reachable_invariant [OF assms] by (simp add: dom_buildCache)
  then obtain r where r: "nodeCache nav (root tree) = Some r" by blast
  with h have "\<not> truthy (node_p r)" by blast
  with r show "\<exists>r. nodeCache nav (root tree) = Some r \<and>
                 map_option fst (getBreadcrumbs pr nav (root tree)) =
                   Some [\<lparr>crumb_nodeId = node_id r, crumb_label = ''Start'',
                          crumb_player = node_pl r, crumb_action = ''ROOT''\<rparr>]"
    by (simp add: getBreadcrumbs_computed [OF assms] computeBreadcrumbs_parentless)
next
  assume "nodeCache nav nodeId = None"
  then show "map_option fst (getBreadcrumbs pr nav nodeId) = Some []"
    by (simp add: getBreadcrumbs_computed [OF assms] computeBreadcrumbs_absent)
qed

lemma example_valid: "isValid (validateCompactTree exampleTree)"
  by code_simp

lemma example_root_node:
  "nodeCache (newNavigator exampleTree) (root exampleTree) =
     Some \<lparr>node_id = ''r'', node_p = None, node_pl = 0, node_s = 0,
                 node_a = [\<lparr>act_t = ''F'', act_amt = None, act_n = None\<rparr>,
                           \<lparr>act_t = ''R'', act_amt = Some 6, act_n = Some ''r:0''\<rparr>,
                           \<lparr>act_t = ''R'', act_amt = Some 20, act_n = Some ''r:1''\<rparr>],
                 node_d = 0, node_f = 2\<rparr>"
  by (simp add: newNavigator_def buildCache_def exampleTree_def)

theorem breadcrumbs_root_and_absent_witness:
  "reachable examplePrinter exampleTree (newNavigator exampleTree) \<and>
   isValid (validateCompactTree exampleTree) \<and>
   nodeCache (newNavigator exampleTree) ''zz'' = None \<and>
   map_option fst (getBreadcrumbs examplePrinter (newNavigator exampleTree) (root exampleTree)) =
     Some [\<lparr>crumb_nodeId = ''r'', crumb_label = ''Start'', crumb_player = 0, crumb_action = ''ROOT''\<rparr>] \<and>
   map_option fst (getBreadcrumbs examplePrinter (newNavigator exampleTree) ''zz'') = Some []"
proof -
  have re: "reachable examplePrinter exampleTree (newNavigator exampleTree)"
    by (rule reachable.constructed)
  have ab: "nodeCache (newNavigator exampleTree) ''zz'' = None"
    by (simp add: newNavigator_def buildCache_def exampleTree_def)
  have np: "\<forall>r. nodeCache (newNavigator exampleTree) (root exampleTree) = Some r \<longrightarrow> \<not> truthy (node_p r)"
    by (simp add: example_root_node truthy_def)
  from breadcrumbs_root_and_absent [OF re, of "''zz''"] example_valid np ab example_root_node re
  show ?thesis by auto
qed

section \<open>Terminal nodes\<close>

lemma buildCache_absent: "buildCache entries k = None \<longleftrightarrow> k \<notin> fst ` set entries"
  using buildCache_foldl [of Map.empty entries k] by (simp add: buildCache_def)

lemma traverse_indexed_throws:
  "cache nodeId = Some node \<Longrightarrow> nodeId \<notin> visited st \<Longrightarrow>
     traverse (Suc depth) cache nodeId st = Some (Inl TypeError)"
  by (simp add: callMember_def CompactTreeUtils_isTerminal_def)

text \<open>
  Claim C7. The enumeration of terminal nodes does not return the terminal nodes: for every
  tree and every start id that is a key of the node map, the first call of \<open>traverse\<close>
  throws a \<^verbatim>\<open>TypeError\<close> at the call of \<^verbatim>\<open>CompactTreeUtils.isTerminal\<close>, whatever the depth
  allowed; only for a start id that is no key the result is a list, the empty one.
\<close>

theorem getTerminalNodes_throws:
  "getTerminalNodes (Suc depth) (newNavigator tree) startNodeId =
     (if startNodeId \<in> fst ` set (nodes tree) then Some (Inl TypeError) else Some (Inr []))"
proof (cases "buildCache (nodes tree) startNodeId")
  case None
  then have "startNodeId \<notin> fst ` set (nodes tree)" by (simp add: buildCache_absent)
  with None show ?thesis
    by (simp add: getTerminalNodes_def newNavigator_def)
next
  case (Some node)
  then have "startNodeId \<in> fst ` set (nodes tree)"
    using buildCache_absent [of "nodes tree" startNodeId] by auto
  moreover have "traverse (Suc depth) (buildCache (nodes tree)) startNodeId
      \<lparr>visited = {}, terminals = []\<rparr> = Some (Inl TypeError)"
    using Some by (intro traverse_indexed_throws [of "buildCache (nodes tree)" startNodeId node]) simp_all
  ultimately show ?thesis
    by (simp add: getTerminalNodes_def newNavigator_def del: traverse.simps)
qed

text \<open>The cyclic node map and the small tree of the examples, from their roots.\<close>

lemma getTerminalNodes_examples:
  "getTerminalNodes 4 (newNavigator cyclicTree) ''a'' = Some (Inl TypeError)"
  "getTerminalNodes 5 (newNavigator exampleTree) ''r'' = Some (Inl TypeError)"
  "getTerminalNodes 5 (newNavigator exampleTree) ''nowhere'' = Some (Inr [])"
  by code_simp+

end
